theory Spec2Isabelle
  imports Main "HOL-Library.AList" "HOL-Library.Sublist"
begin

section \<open>Python values\<close>

text \<open>
  A Python \<open>str\<close> is a sequence of Unicode code points, so it is modelled as a list of
  natural numbers: \<open>str.splitlines\<close> breaks at code points beyond one byte (U+2028,
  U+2029). Identifiers (attribute names, dictionary keys, field names) are ASCII and are
  written as HOL strings; \<open>u\<close> turns an ASCII literal into a Python string.
\<close>

type_synonym pystr = "nat list"

definition u :: "string \<Rightarrow> pystr" where
  "u s = map of_char s"

datatype pyval = PyStr pystr | PyNone

text \<open>The conversion \<open>'%s' % v\<close> applies: a string is itself, \<open>None\<close> prints as "None".\<close>

definition str_of :: "pyval \<Rightarrow> pystr" where
  "str_of v = (case v of PyStr s \<Rightarrow> s | PyNone \<Rightarrow> u ''None'')"

text \<open>
  A \<open>dict\<close> with identifier keys is an association list in insertion order with at most
  one entry per key: \<open>d[k] = v\<close> is \<open>AList.update k v d\<close>, \<open>del d[k]\<close> is
  \<open>AList.delete k d\<close>, \<open>k in d\<close> is \<open>map_of d k \<noteq> None\<close>.
\<close>

type_synonym 'v dict = "(string \<times> 'v) list"

text \<open>\<open>d.get(k)\<close>: the value, or \<open>None\<close> when the key is missing.\<close>

definition dict_get :: "pyval dict \<Rightarrow> string \<Rightarrow> pyval" where
  "dict_get d k = (case map_of d k of Some v \<Rightarrow> v | None \<Rightarrow> PyNone)"

definition header_get :: "pystr dict \<Rightarrow> string \<Rightarrow> pyval" where
  "header_get d k = (case map_of d k of Some s \<Rightarrow> PyStr s | None \<Rightarrow> PyNone)"

text \<open>
  Exceptions are values. \<open>ValueError\<close> is what the spec calls the state error,
  \<open>TypeError\<close> the configuration error of the constructor, \<open>ValidationError\<close> carries its
  messages, and \<open>ExternalError\<close> is any exception raised inside an external collaborator
  (template engine, site lookup, mail transport, spam service).
\<close>

datatype error =
    TypeError string
  | ValueError string
  | KeyError string
  | AttributeError string
  | ValidationError "pystr list"
  | ExternalError string

subsection \<open>\<open>str.splitlines\<close>\<close>

text \<open>
  The line boundaries of \<open>str.splitlines\<close>: LF, VT, FF, CR, FS, GS, RS, NEL (U+0085),
  LINE SEPARATOR (U+2028) and PARAGRAPH SEPARATOR (U+2029); CR LF counts as one boundary.
\<close>

definition is_linebreak :: "nat \<Rightarrow> bool" where
  "is_linebreak c \<longleftrightarrow> c \<in> set [10, 11, 12, 13, 28, 29, 30, 133, 8232, 8233]"

text \<open>
  \<open>splitlines_from cur s\<close> scans \<open>s\<close> with \<open>cur\<close> the line read so far. A boundary
  closes the current line (also an empty one); the end of the string closes a line only
  when it is not empty, so a final line break adds no empty last line.
\<close>

fun splitlines_from :: "pystr \<Rightarrow> pystr \<Rightarrow> pystr list" where
  "splitlines_from cur [] = (if cur = [] then [] else [cur])"
| "splitlines_from cur [c] =
     (if is_linebreak c then cur # splitlines_from [] [] else splitlines_from (cur @ [c]) [])"
| "splitlines_from cur (c # d # cs) =
     (if c = 13 \<and> d = 10 then cur # splitlines_from [] cs
      else if is_linebreak c then cur # splitlines_from [] (d # cs)
      else splitlines_from (cur @ [c]) (d # cs))"

definition splitlines :: "pystr \<Rightarrow> pystr list" where
  "splitlines s = splitlines_from [] s"

text \<open>\<open>''.join(xs)\<close>\<close>

definition join_empty :: "pystr list \<Rightarrow> pystr" where
  "join_empty xs = concat xs"

section \<open>Configuration, request and external collaborators\<close>

text \<open>
  \<open>django.conf.settings\<close>: the settings the module reads. The two Akismet settings are
  read with \<open>getattr(settings, ..., None)\<close>, hence optional.
\<close>

record settings =
  DEFAULT_FROM_EMAIL :: pystr
  MANAGERS :: "(pystr \<times> pystr) list"
  AKISMET_API_KEY :: "pystr option"
  AKISMET_BLOG_URL :: "pystr option"

record request =
  META :: "pystr dict"

datatype site = Site pystr pystr

datatype cval = CVal pyval | CSite site

datatype dval = Str pystr | StrList "pystr list"

datatype akismet_api = AkismetApi pystr pystr

record akismet_kwargs =
  user_ip :: pystr
  user_agent :: pyval
  comment_author :: pyval
  comment_author_email :: pyval
  comment_content :: pyval
  comment_type :: pystr

text \<open>The declared form fields (lines 20-31): the field class and its \<open>max_length\<close>.\<close>

datatype field = CharField "nat option" | EmailField "nat option"

text \<open>
  The collaborators the module calls but does not define are parameters: translation
  (\<open>ugettext_lazy\<close>), \<open>Field.clean\<close> of the declared fields (the messages of its
  \<open>ValidationError\<close>, or the cleaned value), \<open>get_current_site\<close>,
  \<open>loader.render_to_string\<close>, \<open>send_mail\<close> (first argument: \<open>fail_silently\<close>; then the
  keyword arguments), the \<open>Akismet\<close> constructor and its \<open>comment_check\<close>. Each may raise.
\<close>

record env =
  conf :: settings
  ugettext_lazy :: "pystr \<Rightarrow> pystr"
  field_clean :: "field \<Rightarrow> pystr option \<Rightarrow> pystr list + pystr"
  get_current_site :: "request \<Rightarrow> error + site"
  render_to_string :: "pystr \<Rightarrow> cval dict \<Rightarrow> request \<Rightarrow> error + pystr"
  send_mail :: "bool \<Rightarrow> dval dict \<Rightarrow> error + nat"
  Akismet :: "pystr option \<Rightarrow> pystr option \<Rightarrow> error + akismet_api"
  comment_check :: "akismet_api \<Rightarrow> akismet_kwargs \<Rightarrow> error + bool"

section \<open>The form instance\<close>

datatype variant = ContactForm | AkismetContactForm

text \<open>
  The calls an instance has issued to the two outbound services, in order. This is the
  only effect of the module outside the instance.
\<close>

datatype call = CommentCheck akismet_kwargs | SendMail bool "dval dict"

text \<open>
  The state of an instance: its class, the attributes \<open>__init__\<close> sets (\<open>request\<close>, and
  \<open>recipient_list\<close> when an override is given), and the attributes the framework's
  \<open>Form\<close> keeps: \<open>data\<close>, \<open>files\<close>, \<open>is_bound\<close>, \<open>_errors\<close> (\<open>None\<close> until validation
  has run; here \<open>cached_errors\<close>) and \<open>cleaned_data\<close> (absent until a bound instance is
  validated). \<open>trace\<close> records the outbound calls.
\<close>

record form =
  cls :: variant
  request :: request
  inst_recipient_list :: "pystr list option"
  data :: "pystr dict"
  files :: "pystr dict"
  is_bound :: bool
  cached_errors :: "pystr list dict option"
  cleaned_data :: "pyval dict option"
  trace :: "call list"

text \<open>
  \<open>__init__\<close> (lines 41-49). \<open>Form.__init__\<close> sets \<open>is_bound\<close> to
  \<open>data is not None or files is not None\<close>, replaces an absent \<open>data\<close> or \<open>files\<close> by an
  empty dictionary and sets \<open>_errors\<close> to \<open>None\<close>.
\<close>

definition init ::
  "variant \<Rightarrow> pystr dict option \<Rightarrow> pystr dict option \<Rightarrow> request option \<Rightarrow>
   pystr list option \<Rightarrow> error + form" where
  "init c data_arg files_arg request_arg recipient_list_arg =
     (case request_arg of
        None \<Rightarrow> Inl (TypeError ''Keyword argument 'request' must be supplied'')
      | Some r \<Rightarrow>
          Inr \<lparr>cls = c, request = r, inst_recipient_list = recipient_list_arg,
               data = (case data_arg of None \<Rightarrow> [] | Some d \<Rightarrow> d),
               files = (case files_arg of None \<Rightarrow> [] | Some d \<Rightarrow> d),
               is_bound = (data_arg \<noteq> None \<or> files_arg \<noteq> None),
               cached_errors = None, cleaned_data = None, trace = []\<rparr>)"

section \<open>\<open>AkismetContactForm.clean_body\<close>\<close>

text \<open>\<open>SPAM_MESSAGE\<close> (line 153).\<close>

definition SPAM_MESSAGE :: "env \<Rightarrow> pystr" where
  "SPAM_MESSAGE env = ugettext_lazy env (u ''Your message was classified as spam.'')"

text \<open>
  \<open>clean_body\<close> (lines 155-174). Without \<open>body\<close> among the cleaned values the method
  falls off its end and returns \<open>None\<close>. Otherwise it builds the client, then the
  keyword arguments (\<open>META['REMOTE_ADDR']\<close> raises \<open>KeyError\<close> when missing, the
  \<open>.get\<close> lookups give \<open>None\<close>), then calls \<open>comment_check\<close>.
\<close>

definition clean_body :: "env \<Rightarrow> form \<Rightarrow> (error + pyval) \<times> form" where
  "clean_body env f =
     (case cleaned_data f of
        None \<Rightarrow> (Inl (AttributeError ''cleaned_data''), f)
      | Some cd \<Rightarrow>
          (case map_of cd ''body'' of
             None \<Rightarrow> (Inr PyNone, f)
           | Some body \<Rightarrow>
               (case Akismet env (AKISMET_API_KEY (conf env)) (AKISMET_BLOG_URL (conf env)) of
                  Inl e \<Rightarrow> (Inl e, f)
                | Inr akismet_api \<Rightarrow>
                    (case map_of (META (request f)) ''REMOTE_ADDR'' of
                       None \<Rightarrow> (Inl (KeyError ''REMOTE_ADDR''), f)
                     | Some ip \<Rightarrow>
                         (let kw = \<lparr>user_ip = ip,
                                    user_agent = header_get (META (request f)) ''HTTP_USER_AGENT'',
                                    comment_author = dict_get cd ''name'',
                                    comment_author_email = dict_get cd ''email'',
                                    comment_content = body,
                                    comment_type = u ''contact-form''\<rparr>;
                              f1 = f\<lparr>trace := trace f @ [CommentCheck kw]\<rparr>
                          in case comment_check env akismet_api kw of
                               Inl e \<Rightarrow> (Inl e, f1)
                             | Inr spam \<Rightarrow>
                                 if spam then (Inl (ValidationError [SPAM_MESSAGE env]), f1)
                                 else (Inr body, f1))))))"

section \<open>The framework's validation\<close>

text \<open>
  \<open>django.forms.Form\<close> is not part of this repository. What follows is its validation as
  the framework defines it, restricted to what these classes use (no prefix, no
  \<open>empty_permitted\<close>, no form-wide \<open>clean\<close> override):
  \<^item> \<open>add_error\<close> appends the messages to the field's entry of \<open>_errors\<close> and deletes the
    field from \<open>cleaned_data\<close>;
  \<^item> \<open>_clean_fields\<close> visits the declared fields in order: \<open>Field.clean\<close> on the submitted
    value, the result stored in \<open>cleaned_data\<close>, then the \<open>clean_<name>\<close> method if the
    class has one, its result stored again; a \<open>ValidationError\<close> of either goes to
    \<open>add_error\<close>, any other exception leaves the loop;
  \<^item> \<open>full_clean\<close> sets \<open>_errors\<close> to an empty dictionary, stops there for an unbound
    instance, and otherwise sets \<open>cleaned_data\<close> to an empty dictionary and cleans the
    fields;
  \<^item> the property \<open>errors\<close> runs \<open>full_clean\<close> when \<open>_errors\<close> is \<open>None\<close>;
  \<^item> \<open>is_valid()\<close> is \<open>self.is_bound and not self.errors\<close>.
\<close>

definition base_fields :: "variant \<Rightarrow> (string \<times> field) list" where
  "base_fields c =
     [(''name'', CharField (Some 100)),
      (''last_name'', CharField (Some 100)),
      (''phone_number'', CharField (Some 100)),
      (''email'', EmailField (Some 200)),
      (''title'', CharField (Some 200)),
      (''body'', CharField None)]"

text \<open>\<open>hasattr(self, 'clean_%s' % name)\<close>: only \<open>AkismetContactForm.clean_body\<close>.\<close>

definition has_clean_method :: "variant \<Rightarrow> string \<Rightarrow> bool" where
  "has_clean_method c name \<longleftrightarrow> c = AkismetContactForm \<and> name = ''body''"

definition add_error :: "string \<Rightarrow> pystr list \<Rightarrow> form \<Rightarrow> form" where
  "add_error name msgs f =
     (let es = (case cached_errors f of Some es \<Rightarrow> es | None \<Rightarrow> []);
          old = (case map_of es name of Some ms \<Rightarrow> ms | None \<Rightarrow> [])
      in f\<lparr>cached_errors := Some (AList.update name (old @ msgs) es),
           cleaned_data := map_option (AList.delete name) (cleaned_data f)\<rparr>)"

definition set_cleaned :: "string \<Rightarrow> pyval \<Rightarrow> form \<Rightarrow> form" where
  "set_cleaned name v f = f\<lparr>cleaned_data := map_option (AList.update name v) (cleaned_data f)\<rparr>"

fun clean_fields :: "env \<Rightarrow> (string \<times> field) list \<Rightarrow> form \<Rightarrow> (error + unit) \<times> form" where
  "clean_fields env [] f = (Inr (), f)"
| "clean_fields env ((name, fld) # rest) f =
     (case field_clean env fld (map_of (data f) name) of
        Inl msgs \<Rightarrow> clean_fields env rest (add_error name msgs f)
      | Inr v \<Rightarrow>
          (let f1 = set_cleaned name (PyStr v) f in
           if has_clean_method (cls f1) name then
             (case clean_body env f1 of
                (Inl (ValidationError msgs), f2) \<Rightarrow> clean_fields env rest (add_error name msgs f2)
              | (Inl e, f2) \<Rightarrow> (Inl e, f2)
              | (Inr v', f2) \<Rightarrow> clean_fields env rest (set_cleaned name v' f2))
           else clean_fields env rest f1))"

definition full_clean :: "env \<Rightarrow> form \<Rightarrow> (error + unit) \<times> form" where
  "full_clean env f =
     (let f0 = f\<lparr>cached_errors := Some []\<rparr> in
      if \<not> is_bound f0 then (Inr (), f0)
      else clean_fields env (base_fields (cls f0)) (f0\<lparr>cleaned_data := Some []\<rparr>))"

definition errors :: "env \<Rightarrow> form \<Rightarrow> (error + pystr list dict option) \<times> form" where
  "errors env f =
     (case cached_errors f of
        Some es \<Rightarrow> (Inr (Some es), f)
      | None \<Rightarrow>
          (case full_clean env f of
             (Inl e, f') \<Rightarrow> (Inl e, f')
           | (Inr _, f') \<Rightarrow> (Inr (cached_errors f'), f')))"

definition is_valid :: "env \<Rightarrow> form \<Rightarrow> (error + bool) \<times> form" where
  "is_valid env f =
     (if \<not> is_bound f then (Inr False, f)
      else (case errors env f of
              (Inl e, f') \<Rightarrow> (Inl e, f')
            | (Inr es, f') \<Rightarrow> (Inr (es = None \<or> es = Some []), f')))"

section \<open>\<open>ContactForm\<close>\<close>

text \<open>Lines 37 and 39: both template names are plain strings, so not callable.\<close>

definition subject_template_name :: pystr where
  "subject_template_name = u ''contact_form/contact_form_subject.txt''"

definition template_name :: pystr where
  "template_name = u ''contact_form/contact_form.txt''"

text \<open>
  \<open>from_email\<close>, the method (lines 51-56): \<open>'"%s" <%s>' % (name, email)\<close>. The code points
  34, 32, 60 and 62 are the double quote, the space, \<open><\<close> and \<open>>\<close>.
\<close>

definition from_email :: "form \<Rightarrow> error + pystr" where
  "from_email f =
     (case cleaned_data f of
        None \<Rightarrow> Inl (AttributeError ''cleaned_data'')
      | Some cd \<Rightarrow>
          (case map_of cd ''name'' of
             None \<Rightarrow> Inl (KeyError ''name'')
           | Some n \<Rightarrow>
               (case map_of cd ''email'' of
                  None \<Rightarrow> Inl (KeyError ''email'')
                | Some e \<Rightarrow> Inr ([34] @ str_of n @ [34, 32, 60] @ str_of e @ [62]))))"

text \<open>
  \<open>get_context\<close> (lines 83-103): \<open>dict(self.cleaned_data, site=...)\<close> copies the cleaned
  values and then binds \<open>site\<close>.
\<close>

definition get_context :: "env \<Rightarrow> form \<Rightarrow> (error + cval dict) \<times> form" where
  "get_context env f =
     (case is_valid env f of
        (Inl e, f1) \<Rightarrow> (Inl e, f1)
      | (Inr ok, f1) \<Rightarrow>
          if \<not> ok then (Inl (ValueError ''Cannot generate Context from invalid contact form''), f1)
          else (case cleaned_data f1 of
                  None \<Rightarrow> (Inl (AttributeError ''cleaned_data''), f1)
                | Some cd \<Rightarrow>
                    (case get_current_site env (request f1) of
                       Inl e \<Rightarrow> (Inl e, f1)
                     | Inr s \<Rightarrow>
                         (Inr (AList.update ''site'' (CSite s) (map (\<lambda>(k, v). (k, CVal v)) cd)),
                          f1))))"

text \<open>\<open>message\<close> (lines 58-68).\<close>

definition message :: "env \<Rightarrow> form \<Rightarrow> (error + pystr) \<times> form" where
  "message env f =
     (case get_context env f of
        (Inl e, f1) \<Rightarrow> (Inl e, f1)
      | (Inr c, f1) \<Rightarrow> (render_to_string env template_name c (request f1), f1))"

text \<open>\<open>subject\<close> (lines 70-81).\<close>

definition subject :: "env \<Rightarrow> form \<Rightarrow> (error + pystr) \<times> form" where
  "subject env f =
     (case get_context env f of
        (Inl e, f1) \<Rightarrow> (Inl e, f1)
      | (Inr c, f1) \<Rightarrow>
          (case render_to_string env subject_template_name c (request f1) of
             Inl e \<Rightarrow> (Inl e, f1)
           | Inr s \<Rightarrow> (Inr (join_empty (splitlines s)), f1)))"

subsection \<open>Attribute lookup\<close>

text \<open>
  An attribute is a plain value or a callable. The class body binds names in source
  order and a later binding of a name replaces an earlier one: \<open>from_email\<close> is bound to
  the setting at line 33 and to the method at line 51. Only the bindings that are looked
  up by name (\<open>getattr\<close> in \<open>get_message_dict\<close>) are listed.
\<close>

datatype attr = Plain dval | Callable "env \<Rightarrow> form \<Rightarrow> (error + dval) \<times> form"

definition class_body :: "settings \<Rightarrow> (string \<times> attr) list" where
  "class_body s =
     [(''from_email'', Plain (Str (DEFAULT_FROM_EMAIL s))),
      (''recipient_list'', Plain (StrList (map snd (MANAGERS s)))),
      (''subject_template_name'', Plain (Str subject_template_name)),
      (''template_name'', Plain (Str template_name)),
      (''from_email'', Callable (\<lambda>env f. (map_sum id Str (from_email f), f))),
      (''message'', Callable (\<lambda>env f. case message env f of (r, f') \<Rightarrow> (map_sum id Str r, f'))),
      (''subject'', Callable (\<lambda>env f. case subject env f of (r, f') \<Rightarrow> (map_sum id Str r, f')))]"

text \<open>The class namespace after the body has run: the last binding of each name.\<close>

definition class_attr :: "settings \<Rightarrow> string \<Rightarrow> attr option" where
  "class_attr s name = map_of (rev (class_body s)) name"

text \<open>\<open>getattr(self, name)\<close>: the instance's own attribute first, then the class's.\<close>

definition getattr :: "settings \<Rightarrow> form \<Rightarrow> string \<Rightarrow> error + attr" where
  "getattr s f name =
     (case (if name = ''recipient_list'' then inst_recipient_list f else None) of
        Some rl \<Rightarrow> Inr (Plain (StrList rl))
      | None \<Rightarrow>
          (case class_attr s name of
             Some a \<Rightarrow> Inr a
           | None \<Rightarrow> Inl (AttributeError name)))"

subsection \<open>\<open>get_message_dict\<close> and \<open>save\<close>\<close>

text \<open>The loop of lines 127-130: \<open>attr() if callable(attr) else attr\<close> for each part.\<close>

fun message_parts :: "env \<Rightarrow> string list \<Rightarrow> dval dict \<Rightarrow> form \<Rightarrow> (error + dval dict) \<times> form" where
  "message_parts env [] message_dict f = (Inr message_dict, f)"
| "message_parts env (message_part # parts) message_dict f =
     (case getattr (conf env) f message_part of
        Inl e \<Rightarrow> (Inl e, f)
      | Inr a \<Rightarrow>
          (case (case a of Callable m \<Rightarrow> m env f | Plain v \<Rightarrow> (Inr v, f)) of
             (Inl e, f1) \<Rightarrow> (Inl e, f1)
           | (Inr v, f1) \<Rightarrow>
               message_parts env parts (AList.update message_part v message_dict) f1))"

definition get_message_dict :: "env \<Rightarrow> form \<Rightarrow> (error + dval dict) \<times> form" where
  "get_message_dict env f =
     (case is_valid env f of
        (Inl e, f1) \<Rightarrow> (Inl e, f1)
      | (Inr ok, f1) \<Rightarrow>
          if \<not> ok then (Inl (ValueError ''Message cannot be sent from invalid contact form''), f1)
          else message_parts env [''from_email'', ''message'', ''recipient_list'', ''subject''] [] f1)"

text \<open>
  \<open>save\<close> (lines 133-138): the keyword arguments are built first, then \<open>send_mail\<close> is
  called with the flag; its return value is dropped and nothing is caught.
\<close>

definition save :: "env \<Rightarrow> bool \<Rightarrow> form \<Rightarrow> (error + unit) \<times> form" where
  "save env fail_silently f =
     (case get_message_dict env f of
        (Inl e, f1) \<Rightarrow> (Inl e, f1)
      | (Inr message_dict, f1) \<Rightarrow>
          (let f2 = f1\<lparr>trace := trace f1 @ [SendMail fail_silently message_dict]\<rparr>
           in case send_mail env fail_silently message_dict of
                Inl e \<Rightarrow> (Inl e, f2)
              | Inr n \<Rightarrow> (Inr (), f2)))"

definition inputs_kept :: "form \<Rightarrow> form \<Rightarrow> bool" where
  "inputs_kept f f' \<longleftrightarrow>
     cls f' = cls f \<and> request f' = request f \<and>
     inst_recipient_list f' = inst_recipient_list f \<and> data f' = data f \<and>
     files f' = files f \<and> is_bound f' = is_bound f"




section \<open>Callers\<close>





section \<open>An example deployment\<close>

text \<open>
  Concrete settings, collaborators and submissions, used to run the definitions: every
  field is required, the site lookup succeeds, the subject template renders the title
  followed by a line break, the mail transport succeeds, and the spam service flags one
  fixed body.
\<close>

definition demo_settings :: settings where
  "demo_settings =
     \<lparr>DEFAULT_FROM_EMAIL = u ''webmaster@localhost'',
      MANAGERS = [(u ''Admin'', u ''admin@example.com'')],
      AKISMET_API_KEY = Some (u ''key''),
      AKISMET_BLOG_URL = Some (u ''http://example.com/'')\<rparr>"

definition demo_field_clean :: "field \<Rightarrow> pystr option \<Rightarrow> pystr list + pystr" where
  "demo_field_clean fld v =
     (case v of
        None \<Rightarrow> Inl [u ''This field is required.'']
      | Some s \<Rightarrow> if s = [] then Inl [u ''This field is required.''] else Inr s)"

definition demo_render :: "pystr \<Rightarrow> cval dict \<Rightarrow> request \<Rightarrow> error + pystr" where
  "demo_render t c r =
     (if t = subject_template_name then
        (case map_of c ''title'' of
           Some (CVal v) \<Rightarrow> Inr (str_of v @ [13, 10])
         | _ \<Rightarrow> Inl (ExternalError ''VariableDoesNotExist''))
      else
        (case map_of c ''body'' of
           Some (CVal v) \<Rightarrow> Inr (str_of v)
         | _ \<Rightarrow> Inl (ExternalError ''VariableDoesNotExist'')))"

definition demo_env :: env where
  "demo_env =
     \<lparr>conf = demo_settings,
      ugettext_lazy = (\<lambda>s. s),
      field_clean = demo_field_clean,
      get_current_site = (\<lambda>r. Inr (Site (u ''example.com'') (u ''example.com''))),
      render_to_string = demo_render,
      send_mail = (\<lambda>fail_silently kwargs. Inr 1),
      Akismet = (\<lambda>k b. case (k, b) of
                   (Some k', Some b') \<Rightarrow> Inr (AkismetApi k' b')
                 | _ \<Rightarrow> Inl (ExternalError ''ConfigurationError'')),
      comment_check = (\<lambda>a kw. Inr (comment_content kw = PyStr (u ''buy pills'')))\<rparr>"

text \<open>The same deployment with a mail transport that raises whatever the flag.\<close>

definition failing_mail_env :: env where
  "failing_mail_env = demo_env\<lparr>send_mail := (\<lambda>fail_silently kwargs. Inl (ExternalError ''SMTPException''))\<rparr>"

definition demo_request :: request where
  "demo_request = \<lparr>META = [(''REMOTE_ADDR'', u ''127.0.0.1'')]\<rparr>"

definition jane_data :: "pystr dict" where
  "jane_data =
     [(''name'', u ''Jane''), (''last_name'', u ''Doe''), (''phone_number'', u ''555''),
      (''email'', u ''jane@example.com''), (''title'', u ''Hello''), (''body'', u ''Hi there'')]"


text \<open>The instances \<open>__init__\<close> builds from them, before validation.\<close>

definition new_form :: "variant \<Rightarrow> pystr dict \<Rightarrow> bool \<Rightarrow> pystr list option \<Rightarrow> form" where
  "new_form c d bound rl =
     \<lparr>cls = c, request = demo_request, inst_recipient_list = rl, data = d, files = [],
      is_bound = bound, cached_errors = None, cleaned_data = None, trace = []\<rparr>"

definition jane_cleaned :: "pyval dict" where
  "jane_cleaned = map (\<lambda>(k, v). (k, PyStr v)) jane_data"

definition jane_message_dict :: "dval dict" where
  "jane_message_dict =
     [(''from_email'', Str ([34] @ u ''Jane'' @ [34, 32, 60] @ u ''jane@example.com'' @ [62])),
      (''message'', Str (u ''Hi there'')),
      (''recipient_list'', StrList [u ''admin@example.com'']),
      (''subject'', Str (u ''Hello''))]"

text \<open>Jane's submission to the base class: as constructed, and as validation leaves it.\<close>

definition jane_new :: form where
  "jane_new = new_form ContactForm jane_data True None"

definition jane_validated :: form where
  "jane_validated = jane_new\<lparr>cached_errors := Some [], cleaned_data := Some jane_cleaned\<rparr>"

definition jane_context :: "cval dict" where
  "jane_context =
     map (\<lambda>(k, v). (k, CVal (PyStr v))) jane_data @
     [(''site'', CSite (Site (u ''example.com'') (u ''example.com'')))]"



text \<open>A submission whose body the example spam service flags.\<close>

definition spam_data :: "pystr dict" where
  "spam_data =
     [(''name'', u ''Jane''), (''last_name'', u ''Doe''), (''phone_number'', u ''555''),
      (''email'', u ''jane@example.com''), (''title'', u ''Hello''), (''body'', u ''buy pills'')]"

text \<open>
  The spam-checked instance for the flagged submission as the validation loop reaches
  the body field: the five fields before it are cleaned.
\<close>

definition spam_before_body :: form where
  "spam_before_body =
     (new_form AkismetContactForm spam_data True None)
       \<lparr>cached_errors := Some [],
        cleaned_data := Some [(''name'', PyStr (u ''Jane'')), (''last_name'', PyStr (u ''Doe'')),
                              (''phone_number'', PyStr (u ''555'')),
                              (''email'', PyStr (u ''jane@example.com'')),
                              (''title'', PyStr (u ''Hello''))]\<rparr>"

text \<open>The keyword arguments of the spam check for that submission.\<close>

definition spam_kwargs :: akismet_kwargs where
  "spam_kwargs =
     \<lparr>user_ip = u ''127.0.0.1'', user_agent = PyNone, comment_author = PyStr (u ''Jane''),
      comment_author_email = PyStr (u ''jane@example.com''),
      comment_content = PyStr (u ''buy pills''), comment_type = u ''contact-form''\<rparr>"

text \<open>A submission without a body.\<close>

definition no_body_data :: "pystr dict" where
  "no_body_data =
     [(''name'', u ''Jane''), (''last_name'', u ''Doe''), (''phone_number'', u ''555''),
      (''email'', u ''jane@example.com''), (''title'', u ''Hello'')]"

section \<open>Auxiliary facts\<close>

lemma is_linebreak_cr: "is_linebreak 13" by (simp add: is_linebreak_def)
lemma is_linebreak_lf: "is_linebreak 10" by (simp add: is_linebreak_def)

lemma splitlines_from_filter:
  "concat (splitlines_from cur s) = cur @ filter (\<lambda>c. \<not> is_linebreak c) s"
proof (induction cur s rule: splitlines_from.induct)
  case (1 cur)
  then show ?case by simp
next
  case (2 cur c)
  then show ?case by simp
next
  case (3 cur c d cs)
  show ?case
  proof (cases "c = 13 \<and> d = 10")
    case True
    with 3 show ?thesis by (simp add: is_linebreak_cr is_linebreak_lf)
  next
    case False
    note nocrlf = this
    show ?thesis
    proof (cases "is_linebreak c")
      case True
      with nocrlf 3 show ?thesis by (auto simp: is_linebreak_cr is_linebreak_lf)
    next
      case False
      with nocrlf 3 show ?thesis by (auto simp: is_linebreak_cr is_linebreak_lf)
    qed
  qed
qed

lemma clean_body_frame: "\<exists>t. snd (clean_body env f) = f\<lparr>trace := t\<rparr>"
  unfolding clean_body_def
  by (auto split: option.splits sum.splits simp: Let_def intro: exI[of _ "trace f"])

lemma inputs_kept_refl: "inputs_kept f f"
  by (simp add: inputs_kept_def)

lemma inputs_kept_trans: "inputs_kept f g \<Longrightarrow> inputs_kept g h \<Longrightarrow> inputs_kept f h"
  by (simp add: inputs_kept_def)

lemma clean_body_keeps:
  assumes "clean_body env f = (r, f')"
  shows "inputs_kept f f'" and "cached_errors f' = cached_errors f"
    and "cleaned_data f' = cleaned_data f"
proof -
  obtain t where "snd (clean_body env f) = f\<lparr>trace := t\<rparr>"
    using clean_body_frame by blast
  with assms have eq: "f' = f\<lparr>trace := t\<rparr>" by simp
  show "inputs_kept f f'" by (simp add: eq inputs_kept_def)
  show "cached_errors f' = cached_errors f" by (simp add: eq)
  show "cleaned_data f' = cleaned_data f" by (simp add: eq)
qed

lemma add_error_keeps:
  "inputs_kept f (add_error name msgs f)" "cached_errors (add_error name msgs f) \<noteq> None"
  by (simp_all add: add_error_def inputs_kept_def Let_def)

lemma set_cleaned_keeps:
  "inputs_kept f (set_cleaned name v f)"
  "cached_errors (set_cleaned name v f) = cached_errors f"
  by (simp_all add: set_cleaned_def inputs_kept_def)

lemma clean_fields_keeps:
  "clean_fields env flds f = (r, f') \<Longrightarrow>
   inputs_kept f f' \<and> (cached_errors f \<noteq> None \<longrightarrow> cached_errors f' \<noteq> None)"
proof (induction flds arbitrary: f)
  case Nil
  then show ?case by (simp add: inputs_kept_refl)
next
  case (Cons p rest)
  obtain name fld where p: "p = (name, fld)" by (cases p)
  show ?case
  proof (cases "field_clean env fld (map_of (data f) name)")
    case (Inl msgs)
    with Cons.prems p have "clean_fields env rest (add_error name msgs f) = (r, f')" by simp
    from Cons.IH[OF this] show ?thesis
      using add_error_keeps[where f=f and name=name and msgs=msgs] by (auto intro: inputs_kept_trans)
  next
    case (Inr v)
    define f1 where "f1 = set_cleaned name (PyStr v) f"
    have k1: "inputs_kept f f1" "cached_errors f1 = cached_errors f"
      by (simp_all add: f1_def set_cleaned_keeps)
    show ?thesis
    proof (cases "has_clean_method (cls f1) name")
      case False
      with Cons.prems p Inr have "clean_fields env rest f1 = (r, f')"
        by (simp add: f1_def Let_def)
      from Cons.IH[OF this] k1 show ?thesis by (auto intro: inputs_kept_trans)
    next
      case True
      obtain x f2 where cb: "clean_body env f1 = (x, f2)" by (cases "clean_body env f1")
      note k2 = clean_body_keeps[OF cb]
      show ?thesis
      proof (cases x)
        case (Inr v')
        with Cons.prems p \<open>field_clean env fld (map_of (data f) name) = Inr v\<close> True cb
        have "clean_fields env rest (set_cleaned name v' f2) = (r, f')"
          by (simp add: f1_def[symmetric] Let_def)
        from Cons.IH[OF this] k1 k2 set_cleaned_keeps[where f=f2 and name=name and v=v'] show ?thesis
          by (auto intro: inputs_kept_trans)
      next
        case (Inl e)
        show ?thesis
        proof (cases "\<exists>msgs. e = ValidationError msgs")
          case True
          then obtain msgs where e: "e = ValidationError msgs" by blast
          with Cons.prems p \<open>field_clean env fld (map_of (data f) name) = Inr v\<close>
            \<open>has_clean_method (cls f1) name\<close> cb Inl
          have "clean_fields env rest (add_error name msgs f2) = (r, f')"
            by (simp add: f1_def[symmetric] Let_def)
          from Cons.IH[OF this] k1 k2 add_error_keeps[where f=f2 and name=name and msgs=msgs] show ?thesis
            by (auto intro: inputs_kept_trans)
        next
          case False
          with Cons.prems p \<open>field_clean env fld (map_of (data f) name) = Inr v\<close>
            \<open>has_clean_method (cls f1) name\<close> cb Inl
          have "f' = f2" by (cases e) (simp_all add: f1_def[symmetric] Let_def)
          with k1 k2 show ?thesis by (auto intro: inputs_kept_trans)
        qed
      qed
    qed
  qed
qed

lemma full_clean_keeps:
  "full_clean env f = (r, f') \<Longrightarrow> inputs_kept f f' \<and> cached_errors f' \<noteq> None"
  unfolding full_clean_def Let_def
  by (auto split: if_splits dest!: clean_fields_keeps simp: inputs_kept_def)


lemma is_valid_stable:
  assumes "is_valid env f = (Inr b, f')"
  shows "is_valid env f' = (Inr b, f')"
proof (cases "is_bound f")
  case False
  with assms show ?thesis by (auto simp: is_valid_def)
next
  case True
  show ?thesis
  proof (cases "cached_errors f")
    case (Some es)
    with True assms show ?thesis by (auto simp: is_valid_def errors_def)
  next
    case None
    obtain x g where fc: "full_clean env f = (x, g)" by (cases "full_clean env f")
    from full_clean_keeps[OF fc] obtain es where g: "cached_errors g = Some es" "is_bound g = is_bound f"
      by (auto simp: inputs_kept_def)
    from assms True None fc have "f' = g" "b = (cached_errors g = None \<or> cached_errors g = Some [])"
      by (auto simp: is_valid_def errors_def split: sum.splits)
    with g True show ?thesis by (simp add: is_valid_def errors_def)
  qed
qed






lemma get_context_state:
  "is_valid env f = (Inr b, f1) \<Longrightarrow> snd (get_context env f) = f1"
  by (simp add: get_context_def split: option.splits sum.splits)

lemma message_state:
  "is_valid env f = (Inr b, f1) \<Longrightarrow> message env f = (fst (message env f), f1)"
  using get_context_state[of env f b f1]
  by (cases "get_context env f") (auto simp: message_def split: sum.splits)

lemma subject_state:
  "is_valid env f = (Inr b, f1) \<Longrightarrow> subject env f = (fst (subject env f), f1)"
  using get_context_state[of env f b f1]
  by (cases "get_context env f") (auto simp: subject_def split: sum.splits)

lemma class_attr_simps:
  "class_attr s ''from_email'' = Some (Callable (\<lambda>env f. (map_sum id Str (from_email f), f)))"
  "class_attr s ''recipient_list'' = Some (Plain (StrList (map snd (MANAGERS s))))"
  "class_attr s ''message'' =
     Some (Callable (\<lambda>env f. case message env f of (r, f') \<Rightarrow> (map_sum id Str r, f')))"
  "class_attr s ''subject'' =
     Some (Callable (\<lambda>env f. case subject env f of (r, f') \<Rightarrow> (map_sum id Str r, f')))"
  by (simp_all add: class_attr_def class_body_def)

lemma get_message_dict_valid:
  assumes "is_valid env f = (Inr True, f1)"
  shows "get_message_dict env f =
     (case from_email f1 of
        Inl e \<Rightarrow> (Inl e, f1)
      | Inr s \<Rightarrow>
          (case fst (message env f1) of
             Inl e \<Rightarrow> (Inl e, f1)
           | Inr m \<Rightarrow>
               (case fst (subject env f1) of
                  Inl e \<Rightarrow> (Inl e, f1)
                | Inr sj \<Rightarrow>
                    (Inr [(''from_email'', Str s), (''message'', Str m),
                          (''recipient_list'', StrList (case inst_recipient_list f1 of
                                       Some rl \<Rightarrow> rl
                                     | None \<Rightarrow> map snd (MANAGERS (conf env)))),
                          (''subject'', Str sj)], f1))))"
proof -
  note st = is_valid_stable[OF assms]
  obtain rm where m: "message env f1 = (rm, f1)"
    using message_state[OF st] by blast
  obtain rs where s: "subject env f1 = (rs, f1)"
    using subject_state[OF st] by blast
  show ?thesis
    unfolding get_message_dict_def assms
    by (cases "from_email f1"; cases rm; cases rs; cases "inst_recipient_list f1")
       (simp_all add: getattr_def class_attr_simps m s)
qed



lemma subject_strips:
  assumes "get_context env f = (Inr c, f1)"
    and "render_to_string env subject_template_name c (request f1) = Inr t"
  shows "subject env f = (Inr (filter (\<lambda>ch. \<not> is_linebreak ch) t), f1)"
  using assms
  by (simp add: subject_def join_empty_def splitlines_def splitlines_from_filter)

lemma get_message_dict_Inr:
  assumes "get_message_dict env f = (Inr d, f')"
  shows "is_valid env f = (Inr True, f')"
proof -
  obtain x f1 where v: "is_valid env f = (x, f1)" by (cases "is_valid env f")
  show ?thesis
  proof (cases x)
    case (Inl e)
    with v assms show ?thesis by (simp add: get_message_dict_def)
  next
    case (Inr b)
    show ?thesis
    proof (cases b)
      case False
      with v Inr assms show ?thesis by (simp add: get_message_dict_def)
    next
      case True
      with v Inr have v1: "is_valid env f = (Inr True, f1)" by simp
      from assms have "f' = f1"
        unfolding get_message_dict_valid[OF v1]
        by (auto split: sum.splits)
      with v1 show ?thesis by simp
    qed
  qed
qed

lemma message_dict_shape:
  assumes "get_message_dict env f = (Inr d, f')"
  shows "\<exists>s m sj. from_email f' = Inr s \<and>
           d = [(''from_email'', Str s), (''message'', Str m),
                (''recipient_list'', StrList (case inst_recipient_list f' of
                                       Some rl \<Rightarrow> rl
                                     | None \<Rightarrow> map snd (MANAGERS (conf env)))),
                (''subject'', Str sj)]"
  using assms unfolding get_message_dict_valid[OF get_message_dict_Inr[OF assms]]
  by (auto split: sum.splits)


lemma validated_is_valid:
  "is_bound g \<Longrightarrow> cached_errors g = Some [] \<Longrightarrow> is_valid env g = (Inr True, g)"
  by (simp add: is_valid_def errors_def)

lemma update_same: "AList.update k v (AList.update k v al) = AList.update k v al"
  by (induction al) auto

lemma clean_body_no_body:
  "cleaned_data f = Some cd \<Longrightarrow> map_of cd ''body'' = None \<Longrightarrow>
   clean_body env f = (Inr PyNone, f)"
  by (simp add: clean_body_def)

lemma body_step_rejected:
  assumes "field_clean env fld (map_of (data f) ''body'') = Inl msgs"
  shows "clean_fields env [(''body'', fld)] f = (Inr (), add_error ''body'' msgs f)"
  using assms by simp

lemma trace_add_error: "trace (add_error name msgs f) = trace f"
  by (simp add: add_error_def Let_def)

lemma body_step_checked:
  assumes "cls f = AkismetContactForm" and "cleaned_data f = Some cd"
    and "field_clean env fld (map_of (data f) ''body'') = Inr v"
    and "Akismet env (AKISMET_API_KEY (conf env)) (AKISMET_BLOG_URL (conf env)) = Inr api"
    and "map_of (META (request f)) ''REMOTE_ADDR'' = Some ip"
    and "kw = \<lparr>user_ip = ip,
               user_agent = header_get (META (request f)) ''HTTP_USER_AGENT'',
               comment_author = dict_get cd ''name'',
               comment_author_email = dict_get cd ''email'',
               comment_content = PyStr v,
               comment_type = u ''contact-form''\<rparr>"
    and "f1 = (set_cleaned ''body'' (PyStr v) f)\<lparr>trace := trace f @ [CommentCheck kw]\<rparr>"
  shows "comment_check env api kw = Inr True \<Longrightarrow>
           clean_fields env [(''body'', fld)] f =
             (Inr (), add_error ''body'' [SPAM_MESSAGE env] f1)"
    and "comment_check env api kw = Inr False \<Longrightarrow>
           clean_fields env [(''body'', fld)] f = (Inr (), f1)"
proof -
  have dg: "dict_get (AList.update ''body'' (PyStr v) cd) ''name'' = dict_get cd ''name''"
    "dict_get (AList.update ''body'' (PyStr v) cd) ''email'' = dict_get cd ''email''"
    by (simp_all add: dict_get_def update_conv')
  have cb: "clean_body env (set_cleaned ''body'' (PyStr v) f) =
     (case comment_check env api kw of
        Inl e \<Rightarrow> (Inl e, f1)
      | Inr spam \<Rightarrow> if spam then (Inl (ValidationError [SPAM_MESSAGE env]), f1)
                    else (Inr (PyStr v), f1))"
    using assms(1-5) unfolding assms(6,7)
    by (simp add: clean_body_def set_cleaned_def update_conv' dg Let_def split: sum.splits)
  have c1: "cls (set_cleaned ''body'' (PyStr v) f) = AkismetContactForm"
    using assms(1) by (simp add: set_cleaned_def)
  show "comment_check env api kw = Inr True \<Longrightarrow>
           clean_fields env [(''body'', fld)] f =
             (Inr (), add_error ''body'' [SPAM_MESSAGE env] f1)"
    using assms(3) by (simp add: cb c1 has_clean_method_def Let_def)
  show "comment_check env api kw = Inr False \<Longrightarrow>
           clean_fields env [(''body'', fld)] f = (Inr (), f1)"
    using assms(3)
    by (simp add: cb c1 has_clean_method_def Let_def)
       (simp add: assms(2,7) set_cleaned_def update_same)
qed

lemma delete_update_same: "AList.delete k (AList.update k v al) = AList.delete k al"
  by (induction al) (auto simp: AList.delete_eq)

lemma add_error_result:
  assumes "cached_errors g = Some es" and "cleaned_data g = Some cd"
  shows "cached_errors (add_error name msgs g) =
           Some (AList.update name ((case map_of es name of Some ms \<Rightarrow> ms | None \<Rightarrow> []) @ msgs) es)"
    and "cleaned_data (add_error name msgs g) = Some (AList.delete name cd)"
    and "trace (add_error name msgs g) = trace g"
  using assms by (simp_all add: add_error_def Let_def)







lemma save_after_descriptor:
  "get_message_dict env f = (Inr d, f1) \<Longrightarrow>
   save env fail_silently f =
     ((case send_mail env fail_silently d of Inl e \<Rightarrow> Inl e | Inr n \<Rightarrow> Inr ()),
      f1\<lparr>trace := trace f1 @ [SendMail fail_silently d]\<rparr>)"
  by (simp add: save_def Let_def split: sum.splits)

lemma class_attr_default_sender:
  "class_attr (s\<lparr>DEFAULT_FROM_EMAIL := other\<rparr>) name = class_attr s name"
  by (simp add: class_attr_def class_body_def)

lemma clean_fields_append:
  "clean_fields env (xs @ ys) f =
     (case clean_fields env xs f of
        (Inl e, g) \<Rightarrow> (Inl e, g)
      | (Inr x, g) \<Rightarrow> clean_fields env ys g)"
  by (induction env xs f rule: clean_fields.induct)
     (auto simp: Let_def split: sum.splits prod.splits error.splits)

lemma clean_fields_plain:
  "\<forall>p \<in> set xs. \<not> has_clean_method (cls f) (fst p) \<Longrightarrow> cleaned_data f = Some cd \<Longrightarrow>
   \<exists>es' cd'. clean_fields env xs f =
      (Inr (), f\<lparr>cached_errors := es', cleaned_data := Some cd'\<rparr>)"
proof (induction xs arbitrary: f cd)
  case Nil
  have "f = f\<lparr>cached_errors := cached_errors f, cleaned_data := Some cd\<rparr>"
    using Nil by simp
  then show ?case by (metis clean_fields.simps(1))
next
  case (Cons p xs)
  obtain name fld where p: "p = (name, fld)" by (cases p)
  from Cons.prems p have nh: "\<not> has_clean_method (cls f) name" by simp
  show ?case
  proof (cases "field_clean env fld (map_of (data f) name)")
    case (Inl msgs)
    let ?g = "add_error name msgs f"
    have g: "cls ?g = cls f" "cleaned_data ?g = Some (AList.delete name cd)"
      "?g = f\<lparr>cached_errors := cached_errors ?g, cleaned_data := Some (AList.delete name cd)\<rparr>"
      using Cons.prems(2) by (simp_all add: add_error_def Let_def)
    from Cons.prems(1) g(1) have "\<forall>p \<in> set xs. \<not> has_clean_method (cls ?g) (fst p)" by simp
    from Cons.IH[OF this g(2)] obtain es' cd' where
      "clean_fields env xs ?g = (Inr (), ?g\<lparr>cached_errors := es', cleaned_data := Some cd'\<rparr>)"
      by blast
    moreover have "?g\<lparr>cached_errors := es', cleaned_data := Some cd'\<rparr> =
                   f\<lparr>cached_errors := es', cleaned_data := Some cd'\<rparr>"
      by (subst g(3)) simp
    ultimately show ?thesis using Inl p by auto
  next
    case (Inr v)
    let ?g = "set_cleaned name (PyStr v) f"
    have g: "cls ?g = cls f" "cleaned_data ?g = Some (AList.update name (PyStr v) cd)"
      "?g = f\<lparr>cached_errors := cached_errors f, cleaned_data := Some (AList.update name (PyStr v) cd)\<rparr>"
      using Cons.prems(2) by (simp_all add: set_cleaned_def)
    from Cons.prems(1) g(1) have "\<forall>p \<in> set xs. \<not> has_clean_method (cls ?g) (fst p)" by simp
    from Cons.IH[OF this g(2)] obtain es' cd' where
      "clean_fields env xs ?g = (Inr (), ?g\<lparr>cached_errors := es', cleaned_data := Some cd'\<rparr>)"
      by blast
    moreover have "?g\<lparr>cached_errors := es', cleaned_data := Some cd'\<rparr> =
                   f\<lparr>cached_errors := es', cleaned_data := Some cd'\<rparr>"
      by (subst g(3)) simp
    ultimately show ?thesis using Inr p nh g(1) by (auto simp: Let_def)
  qed
qed

lemma validation_reaches_body:
  assumes "is_bound f" and "cached_errors f = None"
  shows "\<exists>es cd. is_valid env f =
     (case clean_fields env [(''body'', CharField None)]
             (f\<lparr>cached_errors := es, cleaned_data := Some cd\<rparr>) of
        (Inl e, f') \<Rightarrow> (Inl e, f')
      | (Inr x, f') \<Rightarrow> (Inr (cached_errors f' = None \<or> cached_errors f' = Some []), f'))"
proof -
  let ?f1 = "f\<lparr>cached_errors := Some [], cleaned_data := Some []\<rparr>"
  let ?five = "[(''name'', CharField (Some 100)), (''last_name'', CharField (Some 100)),
      (''phone_number'', CharField (Some 100)), (''email'', EmailField (Some 200)),
      (''title'', CharField (Some 200))]"
  have bf: "base_fields (cls f) = ?five @ [(''body'', CharField None)]"
    by (simp add: base_fields_def)
  have "\<forall>p \<in> set ?five. \<not> has_clean_method (cls ?f1) (fst p)"
    by (simp add: has_clean_method_def)
  then have "\<exists>es' cd'. clean_fields env ?five ?f1 =
      (Inr (), ?f1\<lparr>cached_errors := es', cleaned_data := Some cd'\<rparr>)"
    by (rule clean_fields_plain) simp
  then obtain es cd where
    five: "clean_fields env ?five ?f1 = (Inr (), ?f1\<lparr>cached_errors := es, cleaned_data := Some cd\<rparr>)"
    by blast
  have eq: "?f1\<lparr>cached_errors := es, cleaned_data := Some cd\<rparr> =
            f\<lparr>cached_errors := es, cleaned_data := Some cd\<rparr>" by simp
  have "full_clean env f = clean_fields env (base_fields (cls f)) ?f1"
    using assms(1) by (simp add: full_clean_def Let_def)
  also have "\<dots> = clean_fields env (?five @ [(''body'', CharField None)]) ?f1"
    by (simp only: bf)
  also have "\<dots> = clean_fields env [(''body'', CharField None)]
                      (f\<lparr>cached_errors := es, cleaned_data := Some cd\<rparr>)"
    by (simp only: clean_fields_append five prod.case sum.case eq)
  finally have "full_clean env f =
          clean_fields env [(''body'', CharField None)] (f\<lparr>cached_errors := es, cleaned_data := Some cd\<rparr>)" .
  then have "is_valid env f =
     (case clean_fields env [(''body'', CharField None)]
             (f\<lparr>cached_errors := es, cleaned_data := Some cd\<rparr>) of
        (Inl e, f') \<Rightarrow> (Inl e, f')
      | (Inr x, f') \<Rightarrow> (Inr (cached_errors f' = None \<or> cached_errors f' = Some []), f'))"
    using assms by (simp add: is_valid_def errors_def split: prod.splits sum.splits del: clean_fields.simps)
  then show ?thesis by blast
qed

subsection \<open>The example deployment, evaluated\<close>


lemma jane_valid:
  "is_valid demo_env (new_form c jane_data True rl) =
     (Inr True, (new_form c jane_data True rl)\<lparr>cached_errors := Some [], cleaned_data := Some jane_cleaned,
         trace := (if c = AkismetContactForm then [CommentCheck \<lparr>user_ip = u ''127.0.0.1'', user_agent = PyNone,
            comment_author = PyStr (u ''Jane''), comment_author_email = PyStr (u ''jane@example.com''),
            comment_content = PyStr (u ''Hi there''), comment_type = u ''contact-form''\<rparr>] else [])\<rparr>)"
  by (cases c)
     (simp_all add: is_valid_def errors_def full_clean_def new_form_def base_fields_def
      jane_data_def jane_cleaned_def demo_env_def demo_field_clean_def has_clean_method_def
      set_cleaned_def add_error_def clean_body_def demo_settings_def demo_request_def
      header_get_def dict_get_def Let_def u_def)



lemma jane_is_valid: "is_valid demo_env jane_new = (Inr True, jane_validated)"
  by (simp add: jane_new_def jane_validated_def jane_valid) (simp add: new_form_def)

lemma jane_get_context: "get_context demo_env jane_new = (Inr jane_context, jane_validated)"
  by (simp add: get_context_def jane_is_valid)
     (simp add: jane_validated_def jane_new_def new_form_def jane_cleaned_def jane_data_def
        jane_context_def demo_env_def)

lemma jane_validated_valid: "is_valid demo_env jane_validated = (Inr True, jane_validated)"
  using is_valid_stable[OF jane_is_valid] .

lemma jane_subject_template:
  "render_to_string demo_env subject_template_name jane_context (request jane_validated) =
     Inr (u ''Hello'' @ [13, 10])"
  by (simp add: demo_env_def demo_render_def jane_context_def jane_data_def str_of_def)

lemma not_linebreak_Hello: "filter (\<lambda>ch. \<not> is_linebreak ch) (u ''Hello'' @ [13, 10]) = u ''Hello''"
  by (simp add: u_def is_linebreak_def)

lemma jane_from_email:
  "from_email jane_validated = Inr ([34] @ u ''Jane'' @ [34, 32, 60] @ u ''jane@example.com'' @ [62])"
  by (simp add: from_email_def jane_validated_def jane_cleaned_def jane_data_def str_of_def)

lemma jane_message: "fst (message demo_env jane_validated) = Inr (u ''Hi there'')"
proof -
  have "get_context demo_env jane_validated = (Inr jane_context, jane_validated)"
    by (simp add: get_context_def jane_validated_valid)
       (simp add: jane_validated_def jane_new_def new_form_def jane_cleaned_def jane_data_def
          jane_context_def demo_env_def)
  then show ?thesis
    by (simp add: message_def)
       (simp add: demo_env_def demo_render_def jane_context_def jane_data_def str_of_def
          template_name_def subject_template_name_def u_def)
qed

lemma jane_subject: "fst (subject demo_env jane_validated) = Inr (u ''Hello'')"
proof -
  have "get_context demo_env jane_validated = (Inr jane_context, jane_validated)"
    by (simp add: get_context_def jane_validated_valid)
       (simp add: jane_validated_def jane_new_def new_form_def jane_cleaned_def jane_data_def
          jane_context_def demo_env_def)
  from subject_strips[OF this jane_subject_template] show ?thesis
    by (simp only: not_linebreak_Hello fst_conv)
qed

lemma jane_get_message_dict:
  "get_message_dict demo_env jane_new = (Inr jane_message_dict, jane_validated)"
  by (simp add: get_message_dict_valid[OF jane_is_valid] jane_from_email jane_message
        jane_subject)
     (simp add: jane_message_dict_def jane_validated_def jane_new_def new_form_def
        demo_env_def demo_settings_def)

lemma demo_descriptor:
  assumes "is_bound g" and "cached_errors g = Some []" and "cleaned_data g = Some jane_cleaned"
    and "inst_recipient_list g = None"
  shows "get_message_dict (demo_env\<lparr>send_mail := sm\<rparr>) g = (Inr jane_message_dict, g)"
proof -
  let ?env = "demo_env\<lparr>send_mail := sm\<rparr>"
  have v: "is_valid ?env g = (Inr True, g)" by (rule validated_is_valid[OF assms(1,2)])
  have c: "get_context ?env g = (Inr jane_context, g)"
    by (simp add: get_context_def v assms)
       (simp add: jane_cleaned_def jane_data_def jane_context_def demo_env_def)
  have fe: "from_email g = Inr ([34] @ u ''Jane'' @ [34, 32, 60] @ u ''jane@example.com'' @ [62])"
    by (simp add: from_email_def assms jane_cleaned_def jane_data_def str_of_def)
  have m: "fst (message ?env g) = Inr (u ''Hi there'')"
    by (simp add: message_def c)
       (simp add: demo_env_def demo_render_def jane_context_def jane_data_def str_of_def
          template_name_def subject_template_name_def u_def)
  have t: "render_to_string ?env subject_template_name jane_context (request g) =
             Inr (u ''Hello'' @ [13, 10])"
    by (simp add: demo_env_def demo_render_def jane_context_def jane_data_def str_of_def)
  have s: "fst (subject ?env g) = Inr (u ''Hello'')"
    using subject_strips[OF c t] by (simp only: not_linebreak_Hello fst_conv)
  show ?thesis
    by (simp add: get_message_dict_valid[OF v] fe m s assms)
       (simp add: jane_message_dict_def demo_env_def demo_settings_def)
qed

lemma demo_env_send_mail: "demo_env\<lparr>send_mail := send_mail demo_env\<rparr> = demo_env"
  by simp

lemma jane_valid_any_mail:
  "is_valid (demo_env\<lparr>send_mail := sm\<rparr>) jane_new = (Inr True, jane_validated)"
  by (simp add: jane_new_def jane_validated_def)
     (simp add: is_valid_def errors_def full_clean_def new_form_def base_fields_def
      jane_data_def jane_cleaned_def demo_env_def demo_field_clean_def has_clean_method_def
      set_cleaned_def add_error_def Let_def u_def)

lemma jane_validated_fields:
  "is_bound jane_validated" "cached_errors jane_validated = Some []"
  "cleaned_data jane_validated = Some jane_cleaned" "inst_recipient_list jane_validated = None"
  "trace jane_validated = []"
  by (simp_all add: jane_validated_def jane_new_def new_form_def)

lemma jane_descriptor_any_mail:
  "get_message_dict (demo_env\<lparr>send_mail := sm\<rparr>) jane_new = (Inr jane_message_dict, jane_validated)"
proof -
  have "get_message_dict (demo_env\<lparr>send_mail := sm\<rparr>) jane_validated =
          (Inr jane_message_dict, jane_validated)"
    by (rule demo_descriptor) (rule jane_validated_fields)+
  then show ?thesis
    using get_message_dict_valid[OF jane_valid_any_mail[of sm]]
      get_message_dict_valid[OF validated_is_valid[OF jane_validated_fields(1,2), of "demo_env\<lparr>send_mail := sm\<rparr>"]]
    by simp
qed

lemma jane_save_any_mail:
  "save (demo_env\<lparr>send_mail := sm\<rparr>) fl jane_new =
     ((case sm fl jane_message_dict of Inl e \<Rightarrow> Inl e | Inr n \<Rightarrow> Inr ()),
      jane_validated\<lparr>trace := [SendMail fl jane_message_dict]\<rparr>)"
  by (simp add: save_def jane_descriptor_any_mail jane_validated_fields Let_def split: sum.splits)






lemma spam_validation:
  "is_valid demo_env (new_form AkismetContactForm spam_data True None) =
     (Inr False,
      (new_form AkismetContactForm spam_data True None)
        \<lparr>cached_errors := Some [(''body'', [u ''Your message was classified as spam.''])],
         cleaned_data := Some [(''name'', PyStr (u ''Jane'')), (''last_name'', PyStr (u ''Doe'')),
                               (''phone_number'', PyStr (u ''555'')),
                               (''email'', PyStr (u ''jane@example.com'')),
                               (''title'', PyStr (u ''Hello''))],
         trace := [CommentCheck spam_kwargs]\<rparr>)"
  by (simp add: is_valid_def errors_def full_clean_def new_form_def base_fields_def
      spam_data_def demo_env_def demo_field_clean_def has_clean_method_def
      set_cleaned_def add_error_def clean_body_def demo_settings_def demo_request_def
      header_get_def dict_get_def Let_def u_def spam_kwargs_def SPAM_MESSAGE_def)

lemma no_body_validation:
  "trace (snd (is_valid demo_env (new_form AkismetContactForm no_body_data True None))) = [] \<and>
   fst (is_valid demo_env (new_form AkismetContactForm no_body_data True None)) = Inr False"
  by (simp add: is_valid_def errors_def full_clean_def new_form_def base_fields_def
      no_body_data_def demo_env_def demo_field_clean_def has_clean_method_def
      set_cleaned_def add_error_def clean_body_def demo_settings_def demo_request_def
      header_get_def dict_get_def Let_def u_def)


section \<open>The claims\<close>




text \<open>
  Claim C9. Construction without a request raises \<open>TypeError\<close>, whatever the class, the
  data, the files and the recipient-list override are.
\<close>

theorem init_requires_request:
  "init c data_arg files_arg None recipient_list_arg =
     Inl (TypeError ''Keyword argument 'request' must be supplied'')"
  by (simp add: init_def)

theorem init_requires_request_witness:
  "init AkismetContactForm (Some jane_data) None None (Some [u ''sales@example.com'']) =
     Inl (TypeError ''Keyword argument 'request' must be supplied'')"
  by (rule init_requires_request)




text \<open>
  Claim C3. Whenever the context can be built (so the instance is valid) and the subject
  template renders, whatever text it renders, \<open>subject\<close> returns that text with every
  line-boundary character removed; the result contains none.
\<close>

theorem subject_single_line:
  assumes "get_context env f = (Inr c, f1)"
    and "render_to_string env subject_template_name c (request f1) = Inr t"
  shows "\<exists>s. fst (subject env f) = Inr s \<and> s = filter (\<lambda>ch. \<not> is_linebreak ch) t \<and>
             (\<forall>ch \<in> set s. \<not> is_linebreak ch)"
  using subject_strips[OF assms] by simp

text \<open>The theorem at Jane's submission, whose subject template ends in CR LF.\<close>

theorem subject_single_line_witness:
  "get_context demo_env jane_new = (Inr jane_context, jane_validated) \<and>
   render_to_string demo_env subject_template_name jane_context (request jane_validated) =
     Inr (u ''Hello'' @ [13, 10]) \<and>
   fst (subject demo_env jane_new) = Inr (u ''Hello'')"
proof -
  from subject_single_line[OF jane_get_context jane_subject_template]
  have "fst (subject demo_env jane_new) =
          Inr (filter (\<lambda>ch. \<not> is_linebreak ch) (u ''Hello'' @ [13, 10]))"
    by blast
  then have "fst (subject demo_env jane_new) = Inr (u ''Hello'')"
    by (simp only: not_linebreak_Hello)
  with jane_get_context jane_subject_template show ?thesis by blast
qed

text \<open>
  Claim C7. When the cleaned values hold a name and an email address, \<open>from_email\<close>
  returns a string of which both are contiguous parts; in particular for the name
  "Jane" and the address "jane@example.com".
\<close>

theorem from_email_names_submitter:
  assumes "cleaned_data f = Some cd"
    and "map_of cd ''name'' = Some (PyStr n)"
    and "map_of cd ''email'' = Some (PyStr e)"
  shows "\<exists>s. from_email f = Inr s \<and> sublist n s \<and> sublist e s"
proof -
  have fe: "from_email f = Inr ([34] @ n @ [34, 32, 60] @ e @ [62])"
    using assms by (simp add: from_email_def str_of_def)
  have "sublist n ([34] @ n @ ([34, 32, 60] @ e @ [62]))" by (rule sublist_appendI)
  moreover have "sublist e (([34] @ n @ [34, 32, 60]) @ e @ [62])" by (rule sublist_appendI)
  ultimately show ?thesis using fe by simp
qed

text \<open>The theorem at Jane's validated submission.\<close>

theorem from_email_names_submitter_witness:
  "is_valid demo_env jane_new = (Inr True, jane_validated) \<and>
   cleaned_data jane_validated = Some jane_cleaned \<and>
   map_of jane_cleaned ''name'' = Some (PyStr (u ''Jane'')) \<and>
   map_of jane_cleaned ''email'' = Some (PyStr (u ''jane@example.com'')) \<and>
   (\<exists>s. from_email jane_validated = Inr s \<and> sublist (u ''Jane'') s \<and>
        sublist (u ''jane@example.com'') s)"
proof -
  have a: "cleaned_data jane_validated = Some jane_cleaned"
    by (simp add: jane_validated_def)
  have b: "map_of jane_cleaned ''name'' = Some (PyStr (u ''Jane''))"
    by (simp add: jane_cleaned_def jane_data_def)
  have c: "map_of jane_cleaned ''email'' = Some (PyStr (u ''jane@example.com''))"
    by (simp add: jane_cleaned_def jane_data_def)
  from from_email_names_submitter[OF a b c] a b c jane_is_valid show ?thesis by blast
qed



text \<open>
  Claim C2, as amended. The sender of every message descriptor is the display name and
  address built from the cleaned name and email, \<open>"name" <email>\<close>. The class attribute
  bound to \<open>settings.DEFAULT_FROM_EMAIL\<close> at line 33 is replaced by the method of the
  same name at line 51, so the class namespace is the same whatever that setting is, and
  \<open>save\<close> hands \<open>send_mail\<close> this descriptor.
\<close>

theorem descriptor_sender_is_submitter:
  assumes "get_message_dict env f = (Inr d, f')"
  shows "(\<exists>cd n e. cleaned_data f' = Some cd \<and> map_of cd ''name'' = Some n \<and>
            map_of cd ''email'' = Some e \<and>
            map_of d ''from_email'' =
              Some (Str ([34] @ str_of n @ [34, 32, 60] @ str_of e @ [62]))) \<and>
         trace (snd (save env fail_silently f)) = trace f' @ [SendMail fail_silently d] \<and>
         class_attr ((conf env)\<lparr>DEFAULT_FROM_EMAIL := other\<rparr>) ''from_email'' =
           class_attr (conf env) ''from_email''"
proof -
  from message_dict_shape[OF assms] obtain s where
    s: "from_email f' = Inr s" "map_of d ''from_email'' = Some (Str s)"
    by auto
  from s(1) obtain cd n e where "cleaned_data f' = Some cd" "map_of cd ''name'' = Some n"
    "map_of cd ''email'' = Some e" "s = [34] @ str_of n @ [34, 32, 60] @ str_of e @ [62]"
    by (auto simp: from_email_def split: option.splits)
  with s(2) have "\<exists>cd n e. cleaned_data f' = Some cd \<and> map_of cd ''name'' = Some n \<and>
            map_of cd ''email'' = Some e \<and>
            map_of d ''from_email'' =
              Some (Str ([34] @ str_of n @ [34, 32, 60] @ str_of e @ [62]))"
    by blast
  moreover have "trace (snd (save env fail_silently f)) = trace f' @ [SendMail fail_silently d]"
    by (simp add: save_after_descriptor[OF assms])
  ultimately show ?thesis by (simp add: class_attr_default_sender)
qed

text \<open>The theorem at Jane's submission.\<close>

theorem descriptor_sender_is_submitter_witness:
  "get_message_dict demo_env jane_new = (Inr jane_message_dict, jane_validated) \<and>
   map_of jane_message_dict ''from_email'' =
     Some (Str ([34] @ u ''Jane'' @ [34, 32, 60] @ u ''jane@example.com'' @ [62])) \<and>
   trace (snd (save demo_env True jane_new)) = [SendMail True jane_message_dict]"
proof -
  from descriptor_sender_is_submitter[OF jane_get_message_dict, of True]
  have "\<exists>n e. map_of jane_cleaned ''name'' = Some n \<and> map_of jane_cleaned ''email'' = Some e \<and>
           map_of jane_message_dict ''from_email'' =
             Some (Str ([34] @ str_of n @ [34, 32, 60] @ str_of e @ [62]))"
    and t: "trace (snd (save demo_env True jane_new)) = [SendMail True jane_message_dict]"
    by (simp_all add: jane_validated_fields)
  then have "map_of jane_message_dict ''from_email'' =
     Some (Str ([34] @ u ''Jane'' @ [34, 32, 60] @ u ''jane@example.com'' @ [62]))"
    by (auto simp: jane_cleaned_def jane_data_def str_of_def)
  with jane_get_message_dict t show ?thesis by blast
qed

text \<open>
  The claim as stated fails: the descriptor handed to \<open>send_mail\<close> for Jane's submission
  has her name and address as \<open>from_email\<close>, not the configured default sender.
\<close>

theorem default_sender_not_in_descriptor:
  "fst (is_valid demo_env jane_new) = Inr True \<and>
   DEFAULT_FROM_EMAIL (conf demo_env) = u ''webmaster@localhost'' \<and>
   trace (snd (save demo_env False jane_new)) = [SendMail False jane_message_dict] \<and>
   map_of jane_message_dict ''from_email'' =
     Some (Str ([34] @ u ''Jane'' @ [34, 32, 60] @ u ''jane@example.com'' @ [62])) \<and>
   map_of jane_message_dict ''from_email'' \<noteq> Some (Str (DEFAULT_FROM_EMAIL (conf demo_env)))"
proof -
  have "save demo_env False jane_new =
     ((case send_mail demo_env False jane_message_dict of Inl e \<Rightarrow> Inl e | Inr n \<Rightarrow> Inr ()),
      jane_validated\<lparr>trace := [SendMail False jane_message_dict]\<rparr>)"
    using jane_save_any_mail[of "send_mail demo_env" False] by (simp only: demo_env_send_mail)
  then have t: "trace (snd (save demo_env False jane_new)) = [SendMail False jane_message_dict]"
    by simp
  have d: "DEFAULT_FROM_EMAIL (conf demo_env) = u ''webmaster@localhost''"
    by (simp add: demo_env_def demo_settings_def)
  have fe: "map_of jane_message_dict ''from_email'' =
     Some (Str ([34] @ u ''Jane'' @ [34, 32, 60] @ u ''jane@example.com'' @ [62]))"
    by (simp add: jane_message_dict_def)
  have ne: "map_of jane_message_dict ''from_email'' \<noteq> Some (Str (DEFAULT_FROM_EMAIL (conf demo_env)))"
    by (simp add: jane_message_dict_def d u_def)
  from t d fe ne jane_is_valid show ?thesis by simp
qed

text \<open>
  Claim C6, as amended. \<open>save\<close> has no handler of its own: once the descriptor is built
  it calls \<open>send_mail\<close> with the flag and the descriptor, and raises exactly what that call
  raises. So with the flag false every failure of the call reaches the caller, and with
  the flag true a failure is suppressed only when \<open>send_mail\<close> itself suppresses it.
\<close>

theorem save_forwards_flag:
  assumes "get_message_dict env f = (Inr d, f1)"
  shows "fst (save env fail_silently f) =
           (case send_mail env fail_silently d of Inl e \<Rightarrow> Inl e | Inr n \<Rightarrow> Inr ()) \<and>
         trace (snd (save env fail_silently f)) = trace f1 @ [SendMail fail_silently d]"
  using assms by (simp add: save_def Let_def split: sum.splits)

text \<open>
  The theorem at Jane's submission, with a transport that succeeds and with one that
  raises.
\<close>

theorem save_forwards_flag_witness:
  "get_message_dict demo_env jane_new = (Inr jane_message_dict, jane_validated) \<and>
   fst (save demo_env False jane_new) = Inr () \<and>
   fst (save demo_env True jane_new) = Inr () \<and>
   trace (snd (save demo_env True jane_new)) = [SendMail True jane_message_dict] \<and>
   get_message_dict failing_mail_env jane_new = (Inr jane_message_dict, jane_validated) \<and>
   fst (save failing_mail_env False jane_new) = Inl (ExternalError ''SMTPException'')"
proof -
  have g: "get_message_dict failing_mail_env jane_new = (Inr jane_message_dict, jane_validated)"
    unfolding failing_mail_env_def by (rule jane_descriptor_any_mail)
  have sm: "send_mail demo_env False jane_message_dict = Inr 1"
    "send_mail demo_env True jane_message_dict = Inr 1"
    "send_mail failing_mail_env False jane_message_dict = Inl (ExternalError ''SMTPException'')"
    by (simp_all add: demo_env_def failing_mail_env_def)
  from save_forwards_flag[OF jane_get_message_dict, of False]
    save_forwards_flag[OF jane_get_message_dict, of True]
    save_forwards_flag[OF g, of False] g jane_get_message_dict
  show ?thesis by (simp add: sm jane_validated_fields)
qed

text \<open>
  The claim as stated fails: with a transport call that raises whatever the flag,
  \<open>save(fail_silently=True)\<close> raises.
\<close>

theorem save_silently_can_raise:
  "fst (is_valid failing_mail_env jane_new) = Inr True \<and>
   fst (save failing_mail_env True jane_new) = Inl (ExternalError ''SMTPException'')"
proof -
  have "fst (is_valid failing_mail_env jane_new) = Inr True"
    unfolding failing_mail_env_def by (simp add: jane_valid_any_mail)
  moreover have "fst (save failing_mail_env True jane_new) = Inl (ExternalError ''SMTPException'')"
    unfolding failing_mail_env_def by (simp add: jane_save_any_mail)
  ultimately show ?thesis by simp
qed

text \<open>
  Claim C4. For the spam-checked class, at the step of the validation loop that cleans
  the body field (\<open>Field.clean\<close>, then \<open>clean_body\<close>), with \<open>kw\<close> the keyword arguments
  line 162 builds and \<open>f1\<close> the instance once the cleaned body is stored and the call is
  recorded:
  \<^item> \<open>clean_body\<close> itself makes no call and returns \<open>None\<close> when \<open>body\<close> is not among the
    cleaned values;
  \<^item> when \<open>Field.clean\<close> rejects the body, its messages become the field's errors and no
    classification call is made;
  \<^item> when the call is made and answers true, the body field gets the one message
    \<open>SPAM_MESSAGE\<close> and loses its cleaned value;
  \<^item> when it answers false, the cleaned body stays as \<open>Field.clean\<close> returned it and no
    error is added;
  \<^item> and the validation of a bound instance that has not been validated is this step,
    taken after the five fields before the body, none of which has a \<open>clean_<name>\<close>
    method: \<open>is_valid()\<close> answers what the step leaves in the error dictionary.
\<close>

theorem spam_check_on_body:
  assumes "cls f = AkismetContactForm" and "cleaned_data f = Some cd"
    and "kw = \<lparr>user_ip = ip,
               user_agent = header_get (META (request f)) ''HTTP_USER_AGENT'',
               comment_author = dict_get cd ''name'',
               comment_author_email = dict_get cd ''email'',
               comment_content = PyStr v,
               comment_type = u ''contact-form''\<rparr>"
    and "f1 = (set_cleaned ''body'' (PyStr v) f)\<lparr>trace := trace f @ [CommentCheck kw]\<rparr>"
  shows
    "(map_of cd ''body'' = None \<longrightarrow> clean_body env f = (Inr PyNone, f)) \<and>
     (field_clean env fld (map_of (data f) ''body'') = Inl msgs \<longrightarrow>
        clean_fields env [(''body'', fld)] f = (Inr (), add_error ''body'' msgs f) \<and>
        trace (add_error ''body'' msgs f) = trace f) \<and>
     (field_clean env fld (map_of (data f) ''body'') = Inr v \<and>
      Akismet env (AKISMET_API_KEY (conf env)) (AKISMET_BLOG_URL (conf env)) = Inr api \<and>
      map_of (META (request f)) ''REMOTE_ADDR'' = Some ip \<and>
      comment_check env api kw = Inr True \<longrightarrow>
        clean_fields env [(''body'', fld)] f =
          (Inr (), add_error ''body'' [SPAM_MESSAGE env] f1) \<and>
        cleaned_data (add_error ''body'' [SPAM_MESSAGE env] f1) =
          Some (AList.delete ''body'' cd)) \<and>
     (field_clean env fld (map_of (data f) ''body'') = Inr v \<and>
      Akismet env (AKISMET_API_KEY (conf env)) (AKISMET_BLOG_URL (conf env)) = Inr api \<and>
      map_of (META (request f)) ''REMOTE_ADDR'' = Some ip \<and>
      comment_check env api kw = Inr False \<longrightarrow>
        clean_fields env [(''body'', fld)] f = (Inr (), f1) \<and>
        cleaned_data f1 = Some (AList.update ''body'' (PyStr v) cd) \<and>
        cached_errors f1 = cached_errors f) \<and>
     (is_bound f0 \<and> cached_errors f0 = None \<longrightarrow>
        (\<exists>es0 cd0. is_valid env f0 =
           (case clean_fields env [(''body'', CharField None)]
                   (f0\<lparr>cached_errors := es0, cleaned_data := Some cd0\<rparr>) of
              (Inl e, f') \<Rightarrow> (Inl e, f')
            | (Inr x, f') \<Rightarrow>
                (Inr (cached_errors f' = None \<or> cached_errors f' = Some []), f'))))"
proof (intro conjI impI)
  assume "map_of cd ''body'' = None"
  with assms(2) show "clean_body env f = (Inr PyNone, f)" by (rule clean_body_no_body)
next
  assume "field_clean env fld (map_of (data f) ''body'') = Inl msgs"
  then show "clean_fields env [(''body'', fld)] f = (Inr (), add_error ''body'' msgs f)"
    by (rule body_step_rejected)
next
  show "trace (add_error ''body'' msgs f) = trace f" by (rule trace_add_error)
next
  assume h: "field_clean env fld (map_of (data f) ''body'') = Inr v \<and>
      Akismet env (AKISMET_API_KEY (conf env)) (AKISMET_BLOG_URL (conf env)) = Inr api \<and>
      map_of (META (request f)) ''REMOTE_ADDR'' = Some ip \<and>
      comment_check env api kw = Inr True"
  then show "clean_fields env [(''body'', fld)] f =
          (Inr (), add_error ''body'' [SPAM_MESSAGE env] f1)"
    using body_step_checked(1)[OF assms(1,2) _ _ _ assms(3,4)] by blast
  show "cleaned_data (add_error ''body'' [SPAM_MESSAGE env] f1) =
          Some (AList.delete ''body'' cd)"
    by (simp add: add_error_def Let_def assms(2,4) set_cleaned_def delete_update_same)
next
  assume h: "field_clean env fld (map_of (data f) ''body'') = Inr v \<and>
      Akismet env (AKISMET_API_KEY (conf env)) (AKISMET_BLOG_URL (conf env)) = Inr api \<and>
      map_of (META (request f)) ''REMOTE_ADDR'' = Some ip \<and>
      comment_check env api kw = Inr False"
  then show "clean_fields env [(''body'', fld)] f = (Inr (), f1)"
    using body_step_checked(2)[OF assms(1,2) _ _ _ assms(3,4)] by blast
  show "cleaned_data f1 = Some (AList.update ''body'' (PyStr v) cd)"
    by (simp add: assms(2,4) set_cleaned_def)
  show "cached_errors f1 = cached_errors f"
    by (simp add: assms(4) set_cleaned_def)
next
  assume "is_bound f0 \<and> cached_errors f0 = None"
  then show "\<exists>es0 cd0. is_valid env f0 =
           (case clean_fields env [(''body'', CharField None)]
                   (f0\<lparr>cached_errors := es0, cleaned_data := Some cd0\<rparr>) of
              (Inl e, f') \<Rightarrow> (Inl e, f')
            | (Inr x, f') \<Rightarrow>
                (Inr (cached_errors f' = None \<or> cached_errors f' = Some []), f'))"
    using validation_reaches_body[of f0 env] by blast
qed

text \<open>
  The theorem at the flagged submission, and the whole validation run on the flagged
  submission, on Jane's and on one without a body.
\<close>

theorem spam_check_on_body_witness:
  "cls spam_before_body = AkismetContactForm \<and>
   field_clean demo_env (CharField None) (map_of (data spam_before_body) ''body'') =
     Inr (u ''buy pills'') \<and>
   comment_check demo_env (AkismetApi (u ''key'') (u ''http://example.com/'')) spam_kwargs =
     Inr True \<and>
   clean_fields demo_env [(''body'', CharField None)] spam_before_body =
     (Inr (), add_error ''body'' [SPAM_MESSAGE demo_env]
                ((set_cleaned ''body'' (PyStr (u ''buy pills'')) spam_before_body)
                   \<lparr>trace := trace spam_before_body @ [CommentCheck spam_kwargs]\<rparr>)) \<and>
   fst (is_valid demo_env (new_form AkismetContactForm spam_data True None)) = Inr False \<and>
   cached_errors (snd (is_valid demo_env (new_form AkismetContactForm spam_data True None))) =
     Some [(''body'', [u ''Your message was classified as spam.''])] \<and>
   fst (is_valid demo_env (new_form AkismetContactForm jane_data True None)) = Inr True \<and>
   cleaned_data (snd (is_valid demo_env (new_form AkismetContactForm jane_data True None))) =
     Some jane_cleaned \<and>
   trace (snd (is_valid demo_env (new_form AkismetContactForm no_body_data True None))) = []"
proof -
  let ?cd = "[(''name'', PyStr (u ''Jane'')), (''last_name'', PyStr (u ''Doe'')),
              (''phone_number'', PyStr (u ''555'')), (''email'', PyStr (u ''jane@example.com'')),
              (''title'', PyStr (u ''Hello''))]"
  have c: "cls spam_before_body = AkismetContactForm"
    by (simp add: spam_before_body_def new_form_def)
  have cd: "cleaned_data spam_before_body = Some ?cd"
    by (simp add: spam_before_body_def)
  have kw: "spam_kwargs = \<lparr>user_ip = u ''127.0.0.1'',
               user_agent = header_get (META (request spam_before_body)) ''HTTP_USER_AGENT'',
               comment_author = dict_get ?cd ''name'',
               comment_author_email = dict_get ?cd ''email'',
               comment_content = PyStr (u ''buy pills''),
               comment_type = u ''contact-form''\<rparr>"
    by (simp add: spam_kwargs_def spam_before_body_def new_form_def demo_request_def
        header_get_def dict_get_def)
  have fc: "field_clean demo_env (CharField None) (map_of (data spam_before_body) ''body'') =
     Inr (u ''buy pills'')"
    by (simp add: demo_env_def demo_field_clean_def spam_before_body_def new_form_def
        spam_data_def u_def)
  have ak: "Akismet demo_env (AKISMET_API_KEY (conf demo_env)) (AKISMET_BLOG_URL (conf demo_env)) =
     Inr (AkismetApi (u ''key'') (u ''http://example.com/''))"
    by (simp add: demo_env_def demo_settings_def)
  have ip: "map_of (META (request spam_before_body)) ''REMOTE_ADDR'' = Some (u ''127.0.0.1'')"
    by (simp add: spam_before_body_def new_form_def demo_request_def)
  have cc: "comment_check demo_env (AkismetApi (u ''key'') (u ''http://example.com/'')) spam_kwargs =
     Inr True"
    by (simp add: demo_env_def spam_kwargs_def)
  from spam_check_on_body[OF c cd kw refl, of demo_env "CharField None" _
      "AkismetApi (u ''key'') (u ''http://example.com/'')"] fc ak ip cc
  have step: "clean_fields demo_env [(''body'', CharField None)] spam_before_body =
     (Inr (), add_error ''body'' [SPAM_MESSAGE demo_env]
                ((set_cleaned ''body'' (PyStr (u ''buy pills'')) spam_before_body)
                   \<lparr>trace := trace spam_before_body @ [CommentCheck spam_kwargs]\<rparr>))"
    by blast
  have j: "fst (is_valid demo_env (new_form AkismetContactForm jane_data True None)) = Inr True"
    "cleaned_data (snd (is_valid demo_env (new_form AkismetContactForm jane_data True None))) =
     Some jane_cleaned"
    by (simp_all add: jane_valid)
  from c fc cc step j no_body_validation show ?thesis
    by (simp add: spam_validation)
qed





end
